theory Spec2Isabelle
  imports Main
begin

section \<open>Context menu dispatcher (electron/src/menu/context.ts)\<close>

subsection \<open>Menu templates\<close>

text \<open>
  A \<open>MenuItemConstructorOptions\<close> object, restricted to the properties the module sets.
  An absent property is \<open>None\<close>; \<open>separator\<close> stands for \<open>type: 'separator'\<close>.
  The three click closures of the module are named by the constructors of \<open>click\<close>;
  what each does when the item is activated is \<open>activate\<close> below.
\<close>

datatype role = Cut | Copy | Paste | SelectAll

datatype click = WriteCopyContext | ReplaceMisspelling | SavePicture

record menu_item =
  label :: "string option"
  role :: "role option"
  separator :: bool
  enabled :: "bool option"
  click :: "click option"

definition no_options :: menu_item where
  "no_options = \<lparr>label = None, role = None, separator = False, enabled = None, click = None\<rparr>"

definition separator_item :: menu_item where
  "separator_item = no_options\<lparr>separator := True\<rparr>"

text \<open>\<open>getText\<close> is the locale lookup \<open>locale.getText\<close>, a collaborator outside the module.\<close>

definition defaultMenu :: "(string \<Rightarrow> string) \<Rightarrow> menu_item list" where
  "defaultMenu getText =
     [no_options\<lparr>click := Some WriteCopyContext, label := Some (getText ''menuCopy'')\<rparr>]"

definition textMenuTemplate :: "(string \<Rightarrow> string) \<Rightarrow> menu_item list" where
  "textMenuTemplate getText =
     [no_options\<lparr>label := Some (getText ''menuCut''), role := Some Cut\<rparr>,
      no_options\<lparr>label := Some (getText ''menuCopy''), role := Some Copy\<rparr>,
      no_options\<lparr>label := Some (getText ''menuPaste''), role := Some Paste\<rparr>,
      separator_item,
      no_options\<lparr>label := Some (getText ''menuSelectAll''), role := Some SelectAll\<rparr>]"

definition imageMenu :: "(string \<Rightarrow> string) \<Rightarrow> menu_item list" where
  "imageMenu getText =
     [no_options\<lparr>click := Some SavePicture, label := Some (getText ''menuSavePictureAs'')\<rparr>]"

subsection \<open>The spell-check menu\<close>

record DictionaryParams =
  suggestions :: "string list option"
  misspelledWord :: "string option"

text \<open>JavaScript truthiness of an optional string: \<open>undefined\<close> and \<open>''\<close> are falsy.\<close>

definition truthy :: "string option \<Rightarrow> bool" where
  "truthy v = (case v of None \<Rightarrow> False | Some s \<Rightarrow> s \<noteq> [])"

definition suggestion_item :: "string \<Rightarrow> menu_item" where
  "suggestion_item suggestion = no_options\<lparr>click := Some ReplaceMisspelling, label := Some suggestion\<rparr>"

definition no_suggestions_item :: menu_item where
  "no_suggestions_item = no_options\<lparr>enabled := Some False, label := Some ''No suggestions''\<rparr>"

text \<open>
  \<open>createTextMenu\<close> returns the template it hands to \<open>Menu.buildFromTemplate\<close>, the new
  value of the module variable \<open>textMenu\<close>. \<open>unshift\<close> is \<open>#\<close>; the \<open>for \<dots> of\<close> loop over
  \<open>suggestions.reverse()\<close> is a \<open>fold\<close> over the reversed list. (The in-place reversal of the
  caller's array is not read again by the module.)
\<close>

definition createTextMenu :: "(string \<Rightarrow> string) \<Rightarrow> DictionaryParams \<Rightarrow> menu_item list" where
  "createTextMenu getText dictionaryParams =
     (let template = textMenuTemplate getText in
      if truthy (misspelledWord dictionaryParams) then
        (let template = separator_item # template in
         case suggestions dictionaryParams of
           Some (s # ss) \<Rightarrow>
             fold (\<lambda>suggestion t. suggestion_item suggestion # t) (rev (s # ss)) template
         | _ \<Rightarrow> no_suggestions_item # template)
      else template)"

subsection \<open>Module state and click handlers\<close>

text \<open>
  The module-level variables: \<open>textMenu\<close> (undefined until the first text menu is built),
  \<open>copyContext\<close>, and the two properties attached to the singleton \<open>imageMenu\<close> object.
\<close>

record module_state =
  textMenu :: "menu_item list option"
  copyContext :: string
  imageMenu_image :: "string option"
  imageMenu_timestamp :: "string option"

definition initial_state :: module_state where
  "initial_state =
     \<lparr>textMenu = None, copyContext = [], imageMenu_image = None, imageMenu_timestamp = None\<rparr>"

text \<open>What activating an item does; the closures read the module state at click time.\<close>

datatype effect =
    ClipboardWriteText string
  | ReplaceMisspellingCall string
  | SavePictureCall string "string option"

definition activate :: "menu_item \<Rightarrow> module_state \<Rightarrow> effect option" where
  "activate menuItem s =
     (case click menuItem of
        None \<Rightarrow> None
      | Some WriteCopyContext \<Rightarrow> Some (ClipboardWriteText (copyContext s))
      | Some ReplaceMisspelling \<Rightarrow>
          Some (ReplaceMisspellingCall (case label menuItem of None \<Rightarrow> [] | Some l \<Rightarrow> l))
      | Some SavePicture \<Rightarrow>
          Some (SavePictureCall
                 (case imageMenu_image s of None \<Rightarrow> [] | Some i \<Rightarrow> if i = [] then [] else i)
                 (imageMenu_timestamp s)))"

subsection \<open>The DOM as the handler reads it\<close>

text \<open>
  An element carries the properties the handler reads. \<open>src\<close> is undefined on an element that
  is not an image. \<open>timeElements\<close> abstracts \<open>getElementsByTagName('time')\<close>: the
  \<open>time\<close> descendants in document order, each given by its \<open>data-timestamp\<close> attribute
  (\<open>None\<close> when the attribute is absent). A node is the document or an element with its
  \<open>parentNode\<close> (\<open>None\<close> for \<open>null\<close>).
\<close>

record element =
  nodeName :: string
  classList :: "string list"
  src :: "string option"
  href :: string
  innerText :: string
  timeElements :: "string option list"

datatype node = Document | Element element "node option"

text \<open>\<open>Element.closest('.c')\<close>: the element itself or its nearest ancestor element of class \<open>c\<close>.\<close>

fun closest :: "string \<Rightarrow> node \<Rightarrow> element option" where
  "closest c Document = None"
| "closest c (Element e p) =
     (if c \<in> set (classList e) then Some e
      else case p of None \<Rightarrow> None | Some n \<Rightarrow> closest c n)"

text \<open>
  The \<open>while\<close> loop of the last branch, started at \<open>element.parentNode\<close>: it climbs while the
  node is neither \<open>null\<close> nor the document nor of class \<open>text\<close>, and yields the node it
  stops at.
\<close>

fun climb :: "node option \<Rightarrow> node option" where
  "climb None = None"
| "climb (Some Document) = Some Document"
| "climb (Some (Element e p)) =
     (if ''text'' \<in> set (classList e) then Some (Element e p) else climb p)"

text \<open>
  \<open>String.prototype.trim\<close>. A string is its UTF-8 bytes, so the white space and line
  terminators of the language are byte sequences: the six ASCII ones (tab, LF, VT, FF, CR,
  space), U+00A0, U+1680, U+2000 to U+200A, U+2028, U+2029, U+202F, U+205F, U+3000 and
  U+FEFF.
\<close>

definition white_space :: "string list" where
  "white_space =
     [[CHR 0x09], [CHR 0x0A], [CHR 0x0B], [CHR 0x0C], [CHR 0x0D], [CHR 0x20],
      [CHR 0xC2, CHR 0xA0],
      [CHR 0xE1, CHR 0x9A, CHR 0x80],
      [CHR 0xE2, CHR 0x80, CHR 0x80], [CHR 0xE2, CHR 0x80, CHR 0x81],
      [CHR 0xE2, CHR 0x80, CHR 0x82], [CHR 0xE2, CHR 0x80, CHR 0x83],
      [CHR 0xE2, CHR 0x80, CHR 0x84], [CHR 0xE2, CHR 0x80, CHR 0x85],
      [CHR 0xE2, CHR 0x80, CHR 0x86], [CHR 0xE2, CHR 0x80, CHR 0x87],
      [CHR 0xE2, CHR 0x80, CHR 0x88], [CHR 0xE2, CHR 0x80, CHR 0x89],
      [CHR 0xE2, CHR 0x80, CHR 0x8A],
      [CHR 0xE2, CHR 0x80, CHR 0xA8], [CHR 0xE2, CHR 0x80, CHR 0xA9],
      [CHR 0xE2, CHR 0x80, CHR 0xAF],
      [CHR 0xE2, CHR 0x81, CHR 0x9F],
      [CHR 0xE3, CHR 0x80, CHR 0x80],
      [CHR 0xEF, CHR 0xBB, CHR 0xBF]]"

text \<open>The number of bytes of the code of \<open>codes\<close> that \<open>s\<close> starts with; 0 when it starts
  with none.\<close>

definition leading :: "string list \<Rightarrow> string \<Rightarrow> nat" where
  "leading codes s =
     (case find (\<lambda>code. take (length code) s = code) codes of
        None \<Rightarrow> 0
      | Some code \<Rightarrow> length code)"

function strip :: "string list \<Rightarrow> string \<Rightarrow> string" where
  "strip codes s =
     (if s = [] \<or> leading codes s = 0 then s else strip codes (drop (leading codes s) s))"
  by pat_completeness auto
termination
  by (relation "measure (\<lambda>(codes, s). length s)") auto

declare strip.simps [simp del]

definition trim :: "string \<Rightarrow> string" where
  "trim s = rev (strip (map rev white_space) (rev (strip white_space s)))"

text \<open>\<open>href.replace(/^mailto:/, '')\<close>: one leading occurrence is removed.\<close>

definition replace_mailto :: "string \<Rightarrow> string" where
  "replace_mailto s = (if take 7 s = ''mailto:'' then drop 7 s else s)"

text \<open>\<open>(window.getSelection() || '').toString()\<close>; \<open>None\<close> is a \<open>null\<close> selection.\<close>

definition selection_text :: "string option \<Rightarrow> string" where
  "selection_text getSelection = (case getSelection of None \<Rightarrow> [] | Some s \<Rightarrow> s)"

subsection \<open>The handler\<close>

record ContextMenuParams =
  params_misspelledWord :: string
  dictionarySuggestions :: "string list"

datatype popup = TextMenuPopup "menu_item list" | ImageMenuPopup | DefaultMenuPopup

datatype js_error = TypeError

text \<open>
  What one call leaves behind: the module state, whether \<open>event.preventDefault()\<close> was
  called, the menu popped up (if any), and the error thrown (if any).
\<close>

record outcome =
  state :: module_state
  defaultPrevented :: bool
  shown :: "popup option"
  thrown :: "js_error option"

text \<open>
  The branches are those of the source, in its order. Reading a property of \<open>null\<close> or of
  \<open>undefined\<close> throws a TypeError: \<open>classList\<close> of the document itself, the result of
  \<open>closest\<close> when nothing matches, and \<open>parentNode.innerText\<close> when the climb ended at
  \<open>null\<close> and the selection is empty (\<open>||\<close> does not evaluate its right side otherwise).
  \<open>getSelection\<close> is what \<open>window.getSelection()\<close> returns, as text.
\<close>

definition handleContextMenu ::
  "(string \<Rightarrow> string) \<Rightarrow> string option \<Rightarrow> node \<Rightarrow> ContextMenuParams \<Rightarrow> module_state \<Rightarrow> outcome" where
  "handleContextMenu getText getSelection target params s0 =
     (let s = s0\<lparr>copyContext := []\<rparr> in
      case target of
        Document \<Rightarrow>
          \<lparr>state = s, defaultPrevented = False, shown = None, thrown = Some TypeError\<rparr>
      | Element element parentNode0 \<Rightarrow>
          if nodeName element = ''TEXTAREA'' \<or> nodeName element = ''INPUT'' then
            (let menu = createTextMenu getText
                          \<lparr>suggestions = Some (dictionarySuggestions params),
                           misspelledWord = Some (params_misspelledWord params)\<rparr> in
             \<lparr>state = s\<lparr>textMenu := Some menu\<rparr>, defaultPrevented = True,
              shown = Some (TextMenuPopup menu), thrown = None\<rparr>)
          else if ''image-element'' \<in> set (classList element)
                  \<or> ''detail-view-image'' \<in> set (classList element) then
            (case closest ''message-body'' target of
               None \<Rightarrow>
                 \<lparr>state = s, defaultPrevented = True, shown = None, thrown = Some TypeError\<rparr>
             | Some parentElement \<Rightarrow>
                 (let s1 = (case timeElements parentElement of
                              [] \<Rightarrow> s
                            | imageTimestamp # _ \<Rightarrow> s\<lparr>imageMenu_timestamp := imageTimestamp\<rparr>) in
                  \<lparr>state = s1\<lparr>imageMenu_image := src element\<rparr>, defaultPrevented = True,
                   shown = Some ImageMenuPopup, thrown = None\<rparr>))
          else if nodeName element = ''A'' then
            \<lparr>state = s\<lparr>copyContext := replace_mailto (href element)\<rparr>, defaultPrevented = True,
             shown = Some DefaultMenuPopup, thrown = None\<rparr>
          else if ''text'' \<in> set (classList element) then
            \<lparr>state = s\<lparr>copyContext :=
                 (if selection_text getSelection \<noteq> [] then selection_text getSelection
                  else trim (innerText element))\<rparr>,
             defaultPrevented = True, shown = Some DefaultMenuPopup, thrown = None\<rparr>
          else
            (case climb parentNode0 of
               Some Document \<Rightarrow>
                 \<lparr>state = s, defaultPrevented = False, shown = None, thrown = None\<rparr>
             | Some (Element parentElement _) \<Rightarrow>
                 \<lparr>state = s\<lparr>copyContext :=
                      (if selection_text getSelection \<noteq> [] then selection_text getSelection
                       else trim (innerText parentElement))\<rparr>,
                  defaultPrevented = True, shown = Some DefaultMenuPopup, thrown = None\<rparr>
             | None \<Rightarrow>
                 if selection_text getSelection \<noteq> [] then
                   \<lparr>state = s\<lparr>copyContext := selection_text getSelection\<rparr>,
                    defaultPrevented = True, shown = Some DefaultMenuPopup, thrown = None\<rparr>
                 else
                   \<lparr>state = s, defaultPrevented = True, shown = None, thrown = Some TypeError\<rparr>))"

section \<open>macOS packager (build-tools, macOS wrapper)\<close>

subsection \<open>Configuration\<close>

text \<open>
  The small option objects are positional: \<open>OsxSign entitlements entitlements-inherit identity\<close>,
  \<open>OsxNotarize appleId appleIdPassword\<close>, \<open>Protocol name schemes\<close>,
  \<open>FlatOptions app identity pkg platform\<close>.
\<close>

datatype osx_sign = OsxSign string string string

datatype osx_notarize = OsxNotarize string string

datatype protocol = Protocol string "string list"

datatype flat_options = FlatOptions string string string string

text \<open>\<open>electronPackager.Options\<close>, with the properties \<open>buildMacOSConfig\<close> sets. The option
  \<open>name\<close> is the field \<open>appName\<close> (\<open>name\<close> is the field of \<open>CommonConfig\<close>); \<open>ignore\<close> holds
  the text the regular expression matches.\<close>

record Options =
  appBundleId :: string
  appCategoryType :: string
  appCopyright :: string
  appVersion :: string
  asar :: bool
  buildVersion :: string
  darwinDarkModeSupport :: bool
  dir :: string
  extendInfo :: string
  helperBundleId :: string
  icon :: string
  ignore :: string
  appName :: string
  out :: string
  overwrite :: bool
  platform :: string
  protocols :: "protocol list"
  prune :: bool
  quiet :: bool
  osxSign :: "osx_sign option"
  osxNotarize :: "osx_notarize option"

text \<open>\<open>CommonConfig\<close> (declared in \<open>./Config\<close>), with the properties this file reads.\<close>

record CommonConfig =
  name :: string
  version :: string
  copyright :: string
  buildNumber :: string
  enableAsar :: bool
  buildDir :: string
  distDir :: string
  customProtocolName :: string

record MacOSConfig =
  bundleId :: string
  category :: string
  certNameApplication :: "string option"
  certNameInstaller :: "string option"
  notarizeAppleId :: "string option"
  notarizeApplePassword :: "string option"

subsection \<open>JSON values and the outside world\<close>

text \<open>A number is kept as the text \<open>JSON.stringify\<close> writes for it; its value as a double
  plays no part here.\<close>

datatype json =
    JNull
  | JBoolean bool
  | JNumber string
  | JString string
  | JArray "json list"
  | JObject "(string \<times> json) list"

datatype error =
    ENOENT string
  | JSONSyntaxError string
  | WriteError string
  | ERR_INVALID_ARG_TYPE
  | ToolFailure string

datatype packaged = Path string | Paths "string list"

type_synonym files = "string \<rightharpoonup> string"

text \<open>
  The collaborators the script calls and does not define. Each tool may change the files on
  disk in any way and may fail.
  \<^item> \<open>path_resolve\<close>, \<open>path_join\<close>: Node's \<open>path\<close> module.
  \<^item> \<open>getCommonConfig\<close>: the configuration loader of \<open>./commonConfig\<close>; from the two
    resolved paths and the disk it yields \<open>(defaultConfig, commonConfig)\<close> or throws. It
    reads files and writes nothing.
  \<^item> \<open>JSON_parse\<close>, \<open>JSON_text\<close>: what \<open>fs.readJson\<close> makes of a file's text, and the text
    \<open>fs.writeJson\<close> writes with \<open>{spaces: 2}\<close>; \<open>config_json\<close> is a configuration object
    as a JSON value.
  \<^item> \<open>writable\<close>: whether a write to the path succeeds on the disk as it stands. The
    tools change the disk, so a write to a path may fail after an earlier one to the same
    path went through. \<open>WriteError\<close> stands for whatever error the failed write throws.
  \<^item> \<open>electronPackager\<close>, \<open>ensureDir\<close>, \<open>buildPkg\<close> (\<open>flatAsync\<close>), \<open>run_shell\<close>
    (the command \<open>execSync\<close> runs; an error is a non-zero exit).
\<close>

record host =
  path_resolve :: "string \<Rightarrow> string"
  path_join :: "string \<Rightarrow> string \<Rightarrow> string"
  getCommonConfig :: "string \<Rightarrow> string \<Rightarrow> files \<Rightarrow> error + (CommonConfig \<times> CommonConfig)"
  JSON_parse :: "string \<Rightarrow> json option"
  JSON_text :: "json \<Rightarrow> string"
  config_json :: "CommonConfig \<Rightarrow> json"
  writable :: "files \<Rightarrow> string \<Rightarrow> bool"
  electronPackager :: "Options \<Rightarrow> files \<Rightarrow> (error + packaged) \<times> files"
  ensureDir :: "string \<Rightarrow> files \<Rightarrow> error option \<times> files"
  buildPkg :: "flat_options \<Rightarrow> files \<Rightarrow> error option \<times> files"
  run_shell :: "string \<Rightarrow> files \<Rightarrow> error option \<times> files"

text \<open>The state outside the process: the files on disk and the commands handed to the shell so
  far, oldest first.\<close>

record world =
  files :: files
  shell :: "string list"

definition readJson :: "host \<Rightarrow> string \<Rightarrow> world \<Rightarrow> error + json" where
  "readJson h file w =
     (case files w file of
        None \<Rightarrow> Inl (ENOENT file)
      | Some text \<Rightarrow>
          (case JSON_parse h text of None \<Rightarrow> Inl (JSONSyntaxError file) | Some v \<Rightarrow> Inr v))"

definition writeJson :: "host \<Rightarrow> string \<Rightarrow> json \<Rightarrow> world \<Rightarrow> error + world" where
  "writeJson h file v w =
     (if writable h (files w) file then
        Inr (w\<lparr>files := (files w)(file \<mapsto> JSON_text h v)\<rparr>)
      else Inl (WriteError file))"

definition execSync :: "host \<Rightarrow> string \<Rightarrow> world \<Rightarrow> error option \<times> world" where
  "execSync h command w =
     (case run_shell h command (files w) of
        (r, fs) \<Rightarrow> (r, \<lparr>files = fs, shell = shell w @ [command]\<rparr>))"

subsection \<open>\<open>buildMacOSConfig\<close>\<close>

text \<open>\<open>process.env.X || d\<close>: the variable when it is set and not empty, else the default.\<close>

definition or_string :: "string option \<Rightarrow> string \<Rightarrow> string" where
  "or_string v d = (case v of None \<Rightarrow> d | Some s \<Rightarrow> if s = [] then d else s)"

definition or_null :: "string option \<Rightarrow> string option \<Rightarrow> string option" where
  "or_null v d = (if truthy v then v else d)"

definition macOsDefaultConfig :: MacOSConfig where
  "macOsDefaultConfig =
     \<lparr>bundleId = ''com.wearezeta.zclient.mac'',
      category = ''public.app-category.social-networking'',
      certNameApplication = None,
      certNameInstaller = None,
      notarizeAppleId = None,
      notarizeApplePassword = None\<rparr>"

text \<open>\<open>env\<close> is \<open>process.env\<close>; an absent \<open>signManually\<close> is \<open>None\<close>. The option \<open>name\<close> of
  the packager is the field \<open>appName\<close>.\<close>

definition buildMacOSConfig ::
  "host \<Rightarrow> (string \<rightharpoonup> string) \<Rightarrow> files \<Rightarrow> string \<Rightarrow> string \<Rightarrow> bool option
     \<Rightarrow> error + (MacOSConfig \<times> Options)" where
  "buildMacOSConfig h env disk wireJsonPath envFilePath signManually =
     (let wireJsonResolved = path_resolve h wireJsonPath;
          envFileResolved = path_resolve h envFilePath in
      case getCommonConfig h envFileResolved wireJsonResolved disk of
        Inl e \<Rightarrow> Inl e
      | Inr (defaultConfig, commonConfig) \<Rightarrow>
          (let macOSConfig = macOsDefaultConfig
                 \<lparr>bundleId := or_string (env ''MACOS_BUNDLE_ID'') (bundleId macOsDefaultConfig),
                  certNameApplication :=
                    or_null (env ''MACOS_CERTIFICATE_NAME_APPLICATION'')
                      (certNameApplication macOsDefaultConfig),
                  certNameInstaller :=
                    or_null (env ''MACOS_CERTIFICATE_NAME_INSTALLER'')
                      (certNameInstaller macOsDefaultConfig),
                  notarizeAppleId :=
                    or_null (env ''MACOS_NOTARIZE_APPLE_ID'') (notarizeAppleId macOsDefaultConfig),
                  notarizeApplePassword :=
                    or_null (env ''MACOS_NOTARIZE_APPLE_PASSWORD'')
                      (notarizeApplePassword macOsDefaultConfig)\<rparr>;
               packagerConfig =
                 \<lparr>appBundleId = bundleId macOSConfig,
                  appCategoryType = ''public.app-category.social-networking'',
                  appCopyright = copyright commonConfig,
                  appVersion = version commonConfig,
                  asar = enableAsar commonConfig,
                  buildVersion = buildNumber commonConfig,
                  darwinDarkModeSupport = True,
                  dir = ''.'',
                  extendInfo = ''resources/macos/custom.plist'',
                  helperBundleId = bundleId macOSConfig @ ''.helper'',
                  icon = ''resources/macos/logo.icns'',
                  ignore = ''electron/renderer/src'',
                  appName = name commonConfig,
                  out = buildDir commonConfig,
                  overwrite = True,
                  platform = ''mas'',
                  protocols =
                    [Protocol (name commonConfig @ '' Core Protocol'')
                       [customProtocolName commonConfig]],
                  prune = True,
                  quiet = False,
                  osxSign = None,
                  osxNotarize = None\<rparr>;
               packagerConfig =
                 (if signManually = Some True then packagerConfig
                  else
                    (let packagerConfig =
                           (case certNameApplication macOSConfig of
                              None \<Rightarrow> packagerConfig
                            | Some cert \<Rightarrow>
                                if cert = [] then packagerConfig
                                else packagerConfig
                                  \<lparr>osxSign := Some (OsxSign
                                     ''resources/macos/entitlements/parent.plist''
                                     ''resources/macos/entitlements/child.plist'' cert)\<rparr>) in
                     case (notarizeAppleId macOSConfig, notarizeApplePassword macOSConfig) of
                       (Some appleId, Some password) \<Rightarrow>
                         if appleId \<noteq> [] \<and> password \<noteq> [] then
                           packagerConfig\<lparr>osxNotarize := Some (OsxNotarize appleId password)\<rparr>
                         else packagerConfig
                     | _ \<Rightarrow> packagerConfig))
           in Inr (macOSConfig, packagerConfig)))"

subsection \<open>\<open>manualMacOSSign\<close>\<close>

text \<open>A shell word in single quotes, as the command templates write it.\<close>

definition quoted :: "string \<Rightarrow> string" where
  "quoted s = CHR 0x27 # s @ [CHR 0x27]"

definition codesign :: "string \<Rightarrow> string \<Rightarrow> string \<Rightarrow> string" where
  "codesign identity entitlements file =
     ''codesign --deep -fs '' @ quoted identity @ '' --entitlements '' @ quoted entitlements
       @ '' '' @ quoted file"

definition productbuild :: "string \<Rightarrow> string \<Rightarrow> string \<Rightarrow> string" where
  "productbuild appFile identity pkgFile =
     ''productbuild --component '' @ quoted appFile @ '' /Applications --sign ''
       @ quoted identity @ '' '' @ quoted pkgFile"

definition inheritEntitlements :: string where
  "inheritEntitlements = ''resources/macos/entitlements/child.plist''"

definition mainEntitlements :: string where
  "mainEntitlements = ''resources/macos/entitlements/parent.plist''"

definition filesToSign :: "CommonConfig \<Rightarrow> string list" where
  "filesToSign commonConfig =
     [''Frameworks/Electron Framework.framework/Versions/A/Electron Framework'',
      ''Frameworks/Electron Framework.framework/Versions/A/Libraries/libEGL.dylib'',
      ''Frameworks/Electron Framework.framework/Versions/A/Libraries/libffmpeg.dylib'',
      ''Frameworks/Electron Framework.framework/Versions/A/Libraries/libGLESv2.dylib'',
      ''Frameworks/Electron Framework.framework/Versions/A/Libraries/libswiftshader_libEGL.dylib'',
      ''Frameworks/Electron Framework.framework/Versions/A/Libraries/libswiftshader_libGLESv2.dylib'',
      ''Frameworks/Electron Framework.framework/'',
      ''Frameworks/'' @ name commonConfig @ '' Helper.app/Contents/MacOS/''
        @ name commonConfig @ '' Helper'',
      ''Frameworks/'' @ name commonConfig @ '' Helper.app/'',
      ''Frameworks/'' @ name commonConfig @ '' Helper (GPU).app/Contents/MacOS/''
        @ name commonConfig @ '' Helper (GPU)'',
      ''Frameworks/'' @ name commonConfig @ '' Helper (GPU).app/'',
      ''Frameworks/'' @ name commonConfig @ '' Helper (Plugin).app/Contents/MacOS/''
        @ name commonConfig @ '' Helper (Plugin)'',
      ''Frameworks/'' @ name commonConfig @ '' Helper (Plugin).app/'',
      ''Frameworks/'' @ name commonConfig @ '' Helper (Renderer).app/Contents/MacOS/''
        @ name commonConfig @ '' Helper (Renderer)'',
      ''Frameworks/'' @ name commonConfig @ '' Helper (Renderer).app/'',
      ''Library/LoginItems/'' @ name commonConfig @ '' Login Helper.app/Contents/MacOS/''
        @ name commonConfig @ '' Login Helper'',
      ''Library/LoginItems/'' @ name commonConfig @ '' Login Helper.app/'']"

text \<open>Commands run one after the other; the first that fails throws, and the rest never run.\<close>

fun execSync_each :: "host \<Rightarrow> string list \<Rightarrow> world \<Rightarrow> error option \<times> world" where
  "execSync_each h [] w = (None, w)"
| "execSync_each h (command # commands) w =
     (case execSync h command w of
        (Some e, w') \<Rightarrow> (Some e, w')
      | (None, w') \<Rightarrow> execSync_each h commands w')"

definition manualMacOSSign ::
  "host \<Rightarrow> string \<Rightarrow> string \<Rightarrow> CommonConfig \<Rightarrow> MacOSConfig \<Rightarrow> world \<Rightarrow> error option \<times> world" where
  "manualMacOSSign h appFile pkgFile commonConfig macOSConfig w =
     (case certNameApplication macOSConfig of
        None \<Rightarrow> (None, w)
      | Some application \<Rightarrow>
          if application = [] then (None, w)
          else
            (case execSync_each h
                    (map (\<lambda>fileName.
                            codesign application inheritEntitlements
                              (appFile @ ''/Contents/'' @ fileName))
                       (filesToSign commonConfig)) w of
               (Some e, w1) \<Rightarrow> (Some e, w1)
             | (None, w1) \<Rightarrow>
                 (case certNameInstaller macOSConfig of
                    None \<Rightarrow> (None, w1)
                  | Some installer \<Rightarrow>
                      if installer = [] then (None, w1)
                      else
                        (let appExecutable = appFile @ ''/Contents/MacOS/'' @ name commonConfig in
                         execSync_each h
                           [codesign application inheritEntitlements appExecutable,
                            codesign application mainEntitlements appFile,
                            productbuild appFile installer pkgFile] w1))))"

subsection \<open>\<open>buildMacOSWrapper\<close>\<close>

text \<open>
  The object spread \<open>{...originalPackageJson, productName: \<dots>, version: \<dots>}\<close>: the own
  enumerable properties of the value, then the two assignments; an assignment to a key
  that is there keeps its place, a new key goes last. An array spreads into its indices,
  a string into its characters, any other value into nothing.
\<close>

fun decimal :: "nat \<Rightarrow> string" where
  "decimal n =
     (if n < 10 then [char_of (48 + n)] else decimal (n div 10) @ [char_of (48 + n mod 10)])"

definition own_properties :: "json \<Rightarrow> (string \<times> json) list" where
  "own_properties v =
     (case v of
        JObject members \<Rightarrow> members
      | JArray xs \<Rightarrow> zip (map decimal [0..<length xs]) xs
      | JString s \<Rightarrow> zip (map decimal [0..<length s]) (map (\<lambda>c. JString [c]) s)
      | _ \<Rightarrow> [])"

fun set_property :: "string \<Rightarrow> json \<Rightarrow> (string \<times> json) list \<Rightarrow> (string \<times> json) list" where
  "set_property k v [] = [(k, v)]"
| "set_property k v ((k', v') # members) =
     (if k' = k then (k, v) # members else (k', v') # set_property k v members)"

definition with_productName_version :: "json \<Rightarrow> CommonConfig \<Rightarrow> json" where
  "with_productName_version originalPackageJson commonConfig =
     JObject (set_property ''version'' (JString (version commonConfig))
               (set_property ''productName'' (JString (name commonConfig))
                 (own_properties originalPackageJson)))"

text \<open>\<open>if (Array.isArray(buildDir)) buildDir = buildDir[0]\<close>; an empty array leaves
  \<open>undefined\<close>.\<close>

definition first_buildDir :: "packaged \<Rightarrow> string option" where
  "first_buildDir built =
     (case built of Path p \<Rightarrow> Some p | Paths [] \<Rightarrow> None | Paths (p # _) \<Rightarrow> Some p)"

text \<open>The body of the \<open>try\<close> block. \<open>path.join\<close> throws on an undefined argument. Logging
  changes nothing and is left out.\<close>

definition package_and_sign ::
  "host \<Rightarrow> Options \<Rightarrow> MacOSConfig \<Rightarrow> CommonConfig \<Rightarrow> bool option \<Rightarrow> world
     \<Rightarrow> error option \<times> world" where
  "package_and_sign h packagerConfig macOSConfig commonConfig signManually w =
     (case electronPackager h packagerConfig (files w) of
        (Inl e, disk1) \<Rightarrow> (Some e, w\<lparr>files := disk1\<rparr>)
      | (Inr built, disk1) \<Rightarrow>
          (let w1 = w\<lparr>files := disk1\<rparr> in
           case certNameInstaller macOSConfig of
             None \<Rightarrow> (None, w1)
           | Some installer \<Rightarrow>
               if installer = [] then (None, w1)
               else
                 (case first_buildDir built of
                    None \<Rightarrow> (Some ERR_INVALID_ARG_TYPE, w1)
                  | Some buildDir1 \<Rightarrow>
                      (let appFile = path_join h buildDir1 (name commonConfig @ ''.app'') in
                       case ensureDir h (distDir commonConfig) (files w1) of
                         (Some e, disk2) \<Rightarrow> (Some e, w1\<lparr>files := disk2\<rparr>)
                       | (None, disk2) \<Rightarrow>
                           (let w2 = w1\<lparr>files := disk2\<rparr>;
                                pkgFile = path_join h (distDir commonConfig)
                                            (name commonConfig @ ''.pkg'') in
                            if signManually = Some True then
                              manualMacOSSign h appFile pkgFile commonConfig macOSConfig w2
                            else
                              (case buildPkg h (FlatOptions appFile installer pkgFile ''mas'')
                                      (files w2) of
                                 (r, disk3) \<Rightarrow> (r, w2\<lparr>files := disk3\<rparr>)))))))"

text \<open>
  The whole function: the result is the error the returned promise rejects with, if any,
  and the world it leaves. The two writes before \<open>try\<close> are not covered by \<open>finally\<close>; an
  error thrown inside \<open>finally\<close> replaces the one of the \<open>try\<close> block.
\<close>

definition buildMacOSWrapper ::
  "host \<Rightarrow> Options \<Rightarrow> MacOSConfig \<Rightarrow> string \<Rightarrow> string \<Rightarrow> string \<Rightarrow> bool option \<Rightarrow> world
     \<Rightarrow> error option \<times> world" where
  "buildMacOSWrapper h packagerConfig macOSConfig packageJsonPath wireJsonPath envFilePath
       signManually w =
     (let wireJsonResolved = path_resolve h wireJsonPath;
          packageJsonResolved = path_resolve h packageJsonPath;
          envFileResolved = path_resolve h envFilePath in
      case getCommonConfig h envFileResolved wireJsonResolved (files w) of
        Inl e \<Rightarrow> (Some e, w)
      | Inr (defaultConfig, commonConfig) \<Rightarrow>
          (case readJson h packageJsonResolved w of
             Inl e \<Rightarrow> (Some e, w)
           | Inr originalPackageJson \<Rightarrow>
               (case writeJson h packageJsonResolved
                       (with_productName_version originalPackageJson commonConfig) w of
                  Inl e \<Rightarrow> (Some e, w)
                | Inr w1 \<Rightarrow>
                    (case writeJson h wireJsonResolved (config_json h commonConfig) w1 of
                       Inl e \<Rightarrow> (Some e, w1)
                     | Inr w2 \<Rightarrow>
                         (case package_and_sign h packagerConfig macOSConfig commonConfig
                                 signManually w2 of
                            (r, w3) \<Rightarrow>
                              (case writeJson h packageJsonResolved originalPackageJson w3 of
                                 Inl e \<Rightarrow> (Some e, w3)
                               | Inr w4 \<Rightarrow>
                                   (case writeJson h wireJsonResolved
                                           (config_json h defaultConfig) w4 of
                                      Inl e \<Rightarrow> (Some e, w4)
                                    | Inr w5 \<Rightarrow> (r, w5))))))))"

section \<open>A concrete host\<close>

text \<open>
  The properties below hold for every host. To evaluate the model on concrete inputs the
  collaborators are instantiated: \<open>JSON.stringify(v, null, 2)\<close> on the values of \<open>json\<close>,
  with the final newline \<open>writeJson\<close> appends, and tools that succeed and leave the disk alone.
\<close>

declare decimal.simps [simp del]

definition hex_digit :: "nat \<Rightarrow> char" where
  "hex_digit n = (if n < 10 then char_of (48 + n) else char_of (87 + n))"

definition escape_char :: "char \<Rightarrow> string" where
  "escape_char c =
     (if c = CHR 0x22 then [CHR 0x5C, CHR 0x22]
      else if c = CHR 0x5C then [CHR 0x5C, CHR 0x5C]
      else if c = CHR 0x08 then [CHR 0x5C, CHR ''b'']
      else if c = CHR 0x0C then [CHR 0x5C, CHR ''f'']
      else if c = CHR 0x0A then [CHR 0x5C, CHR ''n'']
      else if c = CHR 0x0D then [CHR 0x5C, CHR ''r'']
      else if c = CHR 0x09 then [CHR 0x5C, CHR ''t'']
      else if of_char c < (32::nat) then
        [CHR 0x5C, CHR ''u'', CHR ''0'', CHR ''0'', hex_digit (of_char c div 16),
         hex_digit (of_char c mod 16)]
      else [c])"

definition string_literal :: "string \<Rightarrow> string" where
  "string_literal s = CHR 0x22 # concat (map escape_char s) @ [CHR 0x22]"

definition pad :: "nat \<Rightarrow> string" where
  "pad depth = replicate (2 * depth) CHR '' ''"

fun lines_of :: "string list \<Rightarrow> string" where
  "lines_of [] = []"
| "lines_of [x] = x"
| "lines_of (x # y # ys) = x @ '','' @ [CHR 0x0A] @ lines_of (y # ys)"

primrec stringify :: "json \<Rightarrow> nat \<Rightarrow> string" where
  "stringify JNull depth = ''null''"
| "stringify (JBoolean b) depth = (if b then ''true'' else ''false'')"
| "stringify (JNumber digits) depth = digits"
| "stringify (JString s) depth = string_literal s"
| "stringify (JArray xs) depth =
     (if xs = [] then ''[]''
      else ''['' @ [CHR 0x0A]
        @ lines_of (map (\<lambda>item. pad (Suc depth) @ item (Suc depth)) (map stringify xs))
        @ [CHR 0x0A] @ pad depth @ '']'')"
| "stringify (JObject members) depth =
     (if members = [] then ''{}''
      else ''{'' @ [CHR 0x0A]
        @ lines_of (map (\<lambda>(k, member).
                          pad (Suc depth) @ string_literal k @ '': '' @ member (Suc depth))
                     (map (map_prod id stringify) members))
        @ [CHR 0x0A] @ pad depth @ ''}'')"

definition writeJson_text :: "json \<Rightarrow> string" where
  "writeJson_text v = stringify v 0 @ [CHR 0x0A]"

definition sample_defaultConfig :: CommonConfig where
  "sample_defaultConfig =
     \<lparr>name = ''Wire'', version = ''3.10.0'', copyright = ''Wire Swiss GmbH'',
      buildNumber = ''0'', enableAsar = True, buildDir = ''wrap/build'',
      distDir = ''wrap/dist'', customProtocolName = ''wire''\<rparr>"

definition sample_commonConfig :: CommonConfig where
  "sample_commonConfig = sample_defaultConfig\<lparr>version := ''3.10.3218'', buildNumber := ''3218''\<rparr>"

definition sample_config_json :: "CommonConfig \<Rightarrow> json" where
  "sample_config_json c =
     JObject [(''buildNumber'', JString (buildNumber c)), (''name'', JString (name c)),
              (''version'', JString (version c))]"

definition sample_package :: json where
  "sample_package = JObject [(''name'', JString ''wire-desktop''), (''version'', JString ''3.10.0'')]"

text \<open>\<open>JSON.parse\<close> on the file texts the examples use: the sample manifest as \<open>writeJson\<close>
  lays it out, and the empty object on one line without a final newline.\<close>

definition sample_parse :: "string \<Rightarrow> json option" where
  "sample_parse text =
     (if text = writeJson_text sample_package then Some sample_package
      else if text = ''{}'' then Some (JObject [])
      else None)"

definition sample_host :: host where
  "sample_host =
     \<lparr>path_resolve = (\<lambda>p. ''/repo/'' @ p),
      path_join = (\<lambda>a b. a @ ''/'' @ b),
      getCommonConfig = (\<lambda>envFile wireJson disk. Inr (sample_defaultConfig, sample_commonConfig)),
      JSON_parse = sample_parse,
      JSON_text = writeJson_text,
      config_json = sample_config_json,
      writable = (\<lambda>disk file. True),
      electronPackager = (\<lambda>opts disk. (Inr (Paths [''wrap/build/Wire-mas-x64'']), disk)),
      ensureDir = (\<lambda>d disk. (None, disk)),
      buildPkg = (\<lambda>opts disk. (None, disk)),
      run_shell = (\<lambda>command disk. (None, disk))\<rparr>"

text \<open>The same host with a packager that throws.\<close>

definition failing_host :: host where
  "failing_host =
     sample_host\<lparr>electronPackager := (\<lambda>opts disk. (Inl (ToolFailure ''electron-packager''), disk))\<rparr>"

text \<open>A host on which the wire descriptor cannot be written, and one on which the packaged
  bundle takes the last free space: once it is on the disk no write succeeds.\<close>

definition read_only_wire_host :: host where
  "read_only_wire_host = sample_host\<lparr>writable := (\<lambda>disk file. file \<noteq> ''/repo/wire.json'')\<rparr>"

definition full_disk_host :: host where
  "full_disk_host =
     sample_host
       \<lparr>writable := (\<lambda>disk file. disk ''/repo/wrap/build/Wire-mas-x64/Wire.app'' = None),
        electronPackager :=
          (\<lambda>opts disk.
             (Inr (Paths [''wrap/build/Wire-mas-x64'']),
              disk(''/repo/wrap/build/Wire-mas-x64/Wire.app'' \<mapsto> ''bundle'')))\<rparr>"

definition sample_macOSConfig :: MacOSConfig where
  "sample_macOSConfig =
     macOsDefaultConfig\<lparr>certNameApplication := Some ''3rd Party Mac Developer Application: Wire'',
                        certNameInstaller := Some ''3rd Party Mac Developer Installer: Wire''\<rparr>"

text \<open>The locale that answers every key with the key, and an element with nothing set.\<close>

definition key_text :: "string \<Rightarrow> string" where
  "key_text k = k"

definition plain_element :: element where
  "plain_element =
     \<lparr>nodeName = ''DIV'', classList = [], src = None, href = [], innerText = [],
      timeElements = []\<rparr>"

definition no_params :: ContextMenuParams where
  "no_params = \<lparr>params_misspelledWord = [], dictionarySuggestions = []\<rparr>"

definition textarea_target :: node where
  "textarea_target = Element (plain_element\<lparr>nodeName := ''TEXTAREA''\<rparr>) (Some Document)"

text \<open>Two pictures, each inside a message body; only the first body has a \<open>time\<close>
  element. A third picture, of the detail view, has no message body above it.\<close>

definition first_picture :: node where
  "first_picture =
     Element (plain_element\<lparr>nodeName := ''IMG'', classList := [''image-element''],
                            src := Some ''https://x/a.png''\<rparr>)
       (Some (Element (plain_element\<lparr>classList := [''message-body''],
                                      timeElements := [Some ''1565173862'']\<rparr>)
          (Some Document)))"

definition second_picture :: node where
  "second_picture =
     Element (plain_element\<lparr>nodeName := ''IMG'', classList := [''image-element''],
                            src := Some ''https://x/b.png''\<rparr>)
       (Some (Element (plain_element\<lparr>classList := [''message-body'']\<rparr>) (Some Document)))"

definition detail_picture :: node where
  "detail_picture =
     Element (plain_element\<lparr>nodeName := ''IMG'', classList := [''detail-view-image''],
                            src := Some ''https://x/y.png''\<rparr>)
       (Some (Element (plain_element\<lparr>classList := [''detail-view'']\<rparr>) (Some Document)))"

text \<open>A link that is also an image element, inside a message body.\<close>

definition picture_link :: node where
  "picture_link =
     Element (plain_element\<lparr>nodeName := ''A'', classList := [''image-element''],
                            href := ''mailto:a@b.com''\<rparr>)
       (Some (Element (plain_element\<lparr>classList := [''message-body'']\<rparr>) (Some Document)))"

definition sample_packagerConfig :: Options where
  "sample_packagerConfig =
     \<lparr>appBundleId = ''com.wearezeta.zclient.mac'',
      appCategoryType = ''public.app-category.social-networking'',
      appCopyright = ''Wire Swiss GmbH'',
      appVersion = ''3.10.3218'',
      asar = True,
      buildVersion = ''3218'',
      darwinDarkModeSupport = True,
      dir = ''.'',
      extendInfo = ''resources/macos/custom.plist'',
      helperBundleId = ''com.wearezeta.zclient.mac.helper'',
      icon = ''resources/macos/logo.icns'',
      ignore = ''electron/renderer/src'',
      appName = ''Wire'',
      out = ''wrap/build'',
      overwrite = True,
      platform = ''mas'',
      protocols = [Protocol ''Wire Core Protocol'' [''wire'']],
      prune = True,
      quiet = False,
      osxSign = None,
      osxNotarize = None\<rparr>"

text \<open>A disk whose two manifests are laid out as \<open>writeJson\<close> writes them, and one whose
  package manifest is the empty object on one line.\<close>

definition formatted_world :: world where
  "formatted_world =
     \<lparr>files = [''/repo/package.json'' \<mapsto> writeJson_text sample_package,
               ''/repo/wire.json'' \<mapsto> writeJson_text (sample_config_json sample_defaultConfig)],
      shell = []\<rparr>"

definition one_line_world :: world where
  "one_line_world =
     \<lparr>files = [''/repo/package.json'' \<mapsto> ''{}'',
               ''/repo/wire.json'' \<mapsto> writeJson_text (sample_config_json sample_defaultConfig)],
      shell = []\<rparr>"

section \<open>Properties of the context menu dispatcher\<close>

subsection \<open>Auxiliary facts\<close>

lemma unshift_reversed: "fold (\<lambda>x t. f x # t) (rev xs) t0 = map f xs @ t0"
  by (induction xs arbitrary: t0 rule: rev_induct) simp_all

lemma createTextMenu_with_suggestions:
  "truthy w \<Longrightarrow> sugg \<noteq> [] \<Longrightarrow>
   createTextMenu getText \<lparr>suggestions = Some sugg, misspelledWord = w\<rparr>
     = map suggestion_item sugg @ separator_item # textMenuTemplate getText"
  by (cases sugg) (simp_all add: createTextMenu_def unshift_reversed del: rev.simps)

lemma createTextMenu_without_suggestions:
  "truthy w \<Longrightarrow> sugg = None \<or> sugg = Some [] \<Longrightarrow>
   createTextMenu getText \<lparr>suggestions = sugg, misspelledWord = w\<rparr>
     = no_suggestions_item # separator_item # textMenuTemplate getText"
  by (auto simp: createTextMenu_def)

lemma createTextMenu_no_misspelling:
  "\<not> truthy w \<Longrightarrow>
   createTextMenu getText \<lparr>suggestions = sugg, misspelledWord = w\<rparr> = textMenuTemplate getText"
  by (simp add: createTextMenu_def)

text \<open>The cases of the dispatch, in the order the handler tests them.\<close>

lemma handle_cases:
  obtains (doc) "target = Document"
  | (edit) e p where "target = Element e p" "nodeName e = ''TEXTAREA'' \<or> nodeName e = ''INPUT''"
  | (image) e p where "target = Element e p" "nodeName e \<noteq> ''TEXTAREA''" "nodeName e \<noteq> ''INPUT''"
      "''image-element'' \<in> set (classList e) \<or> ''detail-view-image'' \<in> set (classList e)"
  | (anchor) e p where "target = Element e p" "nodeName e \<noteq> ''TEXTAREA''" "nodeName e \<noteq> ''INPUT''"
      "''image-element'' \<notin> set (classList e)" "''detail-view-image'' \<notin> set (classList e)"
      "nodeName e = ''A''"
  | (textual) e p where "target = Element e p" "nodeName e \<noteq> ''TEXTAREA''" "nodeName e \<noteq> ''INPUT''"
      "''image-element'' \<notin> set (classList e)" "''detail-view-image'' \<notin> set (classList e)"
      "nodeName e \<noteq> ''A''" "''text'' \<in> set (classList e)"
  | (other) e p where "target = Element e p" "nodeName e \<noteq> ''TEXTAREA''" "nodeName e \<noteq> ''INPUT''"
      "''image-element'' \<notin> set (classList e)" "''detail-view-image'' \<notin> set (classList e)"
      "nodeName e \<noteq> ''A''" "''text'' \<notin> set (classList e)"
  by (cases target) blast+

text \<open>
  How the three observations of a call hang together: a menu is never shown without
  \<open>preventDefault\<close> and never by a call that throws; a call that has called
  \<open>preventDefault\<close> and returns has shown a menu; and \<open>copyContext\<close>, reset at the start
  of the dispatch, is still empty unless the default menu is shown.
\<close>

lemma handleContextMenu_outcome:
  fixes getText sel target params s
  defines "result \<equiv> handleContextMenu getText sel target params s"
  shows "(shown result \<noteq> None \<longrightarrow> defaultPrevented result \<and> thrown result = None)
       \<and> (defaultPrevented result \<and> thrown result = None \<longrightarrow> shown result \<noteq> None)
       \<and> (shown result \<noteq> Some DefaultMenuPopup \<longrightarrow> copyContext (state result) = [])"
proof (cases target rule: handle_cases)
  case doc
  then show ?thesis by (simp add: result_def handleContextMenu_def)
next
  case (edit e p)
  then show ?thesis by (simp add: result_def handleContextMenu_def Let_def)
next
  case (image e p)
  show ?thesis
  proof (cases "closest ''message-body'' (Element e p)")
    case None
    with image show ?thesis
      by (simp add: result_def handleContextMenu_def Let_def del: closest.simps)
  next
    case (Some parentElement)
    with image show ?thesis
      by (cases "timeElements parentElement")
         (simp_all add: result_def handleContextMenu_def Let_def del: closest.simps)
  qed
next
  case (anchor e p)
  then show ?thesis by (simp add: result_def handleContextMenu_def)
next
  case (textual e p)
  then show ?thesis by (simp add: result_def handleContextMenu_def)
next
  case (other e p)
  show ?thesis
  proof (cases "climb p")
    case None
    with other show ?thesis
      by (simp add: result_def handleContextMenu_def Let_def)
  next
    case (Some n)
    with other show ?thesis
      by (cases n) (simp_all add: result_def handleContextMenu_def Let_def)
  qed
qed

lemma shown_then_prevented:
  "shown (handleContextMenu getText sel target params s) \<noteq> None \<Longrightarrow>
   defaultPrevented (handleContextMenu getText sel target params s)"
  using handleContextMenu_outcome [of getText sel target params s] by blast

lemma prevented_and_returned_then_shown:
  "defaultPrevented (handleContextMenu getText sel target params s) \<Longrightarrow>
   thrown (handleContextMenu getText sel target params s) = None \<Longrightarrow>
   shown (handleContextMenu getText sel target params s) \<noteq> None"
  using handleContextMenu_outcome [of getText sel target params s] by blast

lemma copyContext_reset:
  "shown (handleContextMenu getText sel target params s) \<noteq> Some DefaultMenuPopup \<Longrightarrow>
   copyContext (state (handleContextMenu getText sel target params s)) = []"
  using handleContextMenu_outcome [of getText sel target params s] by blast

text \<open>No case matches: the climb from the parent reaches the document.\<close>

lemma no_match_leaves_default:
  assumes "nodeName e \<noteq> ''TEXTAREA''" and "nodeName e \<noteq> ''INPUT''" and "nodeName e \<noteq> ''A''"
    and "''image-element'' \<notin> set (classList e)"
    and "''detail-view-image'' \<notin> set (classList e)"
    and "''text'' \<notin> set (classList e)"
    and "climb p = Some Document"
  shows "\<not> defaultPrevented (handleContextMenu getText sel (Element e p) params s)
       \<and> shown (handleContextMenu getText sel (Element e p) params s) = None
       \<and> thrown (handleContextMenu getText sel (Element e p) params s) = None"
  using assms by (simp add: handleContextMenu_def Let_def)

subsection \<open>The spell-check menu\<close>

text \<open>
  C2, as amended. For a TEXTAREA or INPUT target with a misspelled word and a non-empty
  suggestion list, the menu popped up starts with one item per suggestion, in the order of
  the suggestion list itself (the list is reversed and then each entry is put in front, so
  the two reversals cancel); each of these items is labelled with its suggestion and
  replaces the misspelled word by that label when activated; a separator follows, and then
  the cut/copy/paste/select-all template.
\<close>

theorem createTextMenu_suggestions_order:
  assumes "nodeName e = ''TEXTAREA'' \<or> nodeName e = ''INPUT''"
    and "params_misspelledWord params \<noteq> []"
    and "dictionarySuggestions params \<noteq> []"
  shows "shown (handleContextMenu getText sel (Element e p) params s)
           = Some (TextMenuPopup (map suggestion_item (dictionarySuggestions params)
                                   @ separator_item # textMenuTemplate getText))
       \<and> textMenu (state (handleContextMenu getText sel (Element e p) params s))
           = Some (createTextMenu getText
                     \<lparr>suggestions = Some (dictionarySuggestions params),
                      misspelledWord = Some (params_misspelledWord params)\<rparr>)
       \<and> createTextMenu getText
             \<lparr>suggestions = Some (dictionarySuggestions params),
              misspelledWord = Some (params_misspelledWord params)\<rparr>
           = map suggestion_item (dictionarySuggestions params)
               @ separator_item # textMenuTemplate getText
       \<and> (\<forall>x. label (suggestion_item x) = Some x
              \<and> activate (suggestion_item x) st = Some (ReplaceMisspellingCall x))"
  using assms
  by (auto simp: handleContextMenu_def Let_def createTextMenu_with_suggestions truthy_def
      suggestion_item_def activate_def no_options_def)

theorem createTextMenu_suggestions_order_witness:
  "shown (handleContextMenu key_text None textarea_target
            \<lparr>params_misspelledWord = ''teh'', dictionarySuggestions = [''hte'', ''the'']\<rparr>
            initial_state)
     = Some (TextMenuPopup (suggestion_item ''hte'' # suggestion_item ''the'' # separator_item
                             # textMenuTemplate key_text))
   \<and> activate (suggestion_item ''the'') initial_state = Some (ReplaceMisspellingCall ''the'')"
  using createTextMenu_suggestions_order
    [where e = "plain_element\<lparr>nodeName := ''TEXTAREA''\<rparr>"
       and params = "\<lparr>params_misspelledWord = ''teh'', dictionarySuggestions = [''hte'', ''the'']\<rparr>"
       and getText = key_text and sel = None and p = "Some Document" and s = initial_state
       and st = initial_state]
  by (simp add: plain_element_def textarea_target_def)

text \<open>The claim as stated fails: for the suggestions \<open>["hte", "the"]\<close> the two leading labels
  are \<open>"hte", "the"\<close>, not the reversed list \<open>"the", "hte"\<close>.\<close>

theorem createTextMenu_not_reversed:
  "map label (take 2 (createTextMenu key_text
      \<lparr>suggestions = Some [''hte'', ''the''], misspelledWord = Some ''teh''\<rparr>))
     = [Some ''hte'', Some ''the'']
   \<and> map label (take 2 (createTextMenu key_text
      \<lparr>suggestions = Some [''hte'', ''the''], misspelledWord = Some ''teh''\<rparr>))
     \<noteq> map Some (rev [''hte'', ''the''])"
  by (simp add: createTextMenu_def truthy_def suggestion_item_def no_options_def)

text \<open>
  C7. For a TEXTAREA or INPUT target with a misspelled word and an empty suggestion list
  (for \<open>createTextMenu\<close> itself: an empty or absent one), the menu starts with a disabled
  item labelled "No suggestions", followed by a separator and the standard template.
\<close>

theorem createTextMenu_no_suggestions:
  assumes "nodeName e = ''TEXTAREA'' \<or> nodeName e = ''INPUT''"
    and "params_misspelledWord params \<noteq> []"
    and "dictionarySuggestions params = []"
    and "truthy w"
    and "sugg = None \<or> sugg = Some []"
  shows "shown (handleContextMenu getText sel (Element e p) params s)
           = Some (TextMenuPopup
                    (no_options\<lparr>enabled := Some False, label := Some ''No suggestions''\<rparr>
                       # separator_item # textMenuTemplate getText))
       \<and> createTextMenu getText \<lparr>suggestions = sugg, misspelledWord = w\<rparr>
           = no_options\<lparr>enabled := Some False, label := Some ''No suggestions''\<rparr>
               # separator_item # textMenuTemplate getText"
  using assms
  by (auto simp: handleContextMenu_def Let_def createTextMenu_without_suggestions truthy_def
      no_suggestions_item_def)

theorem createTextMenu_no_suggestions_witness:
  "shown (handleContextMenu key_text None textarea_target
            \<lparr>params_misspelledWord = ''teh'', dictionarySuggestions = []\<rparr> initial_state)
     = Some (TextMenuPopup
              (no_options\<lparr>enabled := Some False, label := Some ''No suggestions''\<rparr>
                 # separator_item # textMenuTemplate key_text))
   \<and> enabled (hd (createTextMenu key_text \<lparr>suggestions = None, misspelledWord = Some ''teh''\<rparr>))
     = Some False"
  using createTextMenu_no_suggestions
    [where e = "plain_element\<lparr>nodeName := ''TEXTAREA''\<rparr>"
       and params = "\<lparr>params_misspelledWord = ''teh'', dictionarySuggestions = []\<rparr>"
       and getText = key_text and sel = None and p = "Some Document" and s = initial_state
       and w = "Some ''teh''" and sugg = None]
  by (simp add: plain_element_def textarea_target_def truthy_def)

subsection \<open>The anchor case\<close>

text \<open>
  C6, as amended. For an anchor target that has neither of the two image classes (the
  image case is tested first and takes an anchor that has one), the text captured into \<open>copyContext\<close> is the \<open>href\<close> without a leading
  \<open>mailto:\<close>: for \<open>href = "mailto:" + rest\<close> it is \<open>rest\<close>, and an \<open>href\<close> that does not start
  with \<open>mailto:\<close> is captured unchanged. The default menu pops up, and its item writes the
  captured text to the clipboard.
\<close>

theorem anchor_copyContext_strips_mailto:
  assumes "nodeName e = ''A''"
    and "''image-element'' \<notin> set (classList e)"
    and "''detail-view-image'' \<notin> set (classList e)"
  shows "(\<forall>rest. href e = ''mailto:'' @ rest \<longrightarrow>
            copyContext (state (handleContextMenu getText sel (Element e p) params s)) = rest)
       \<and> (take 7 (href e) \<noteq> ''mailto:'' \<longrightarrow>
            copyContext (state (handleContextMenu getText sel (Element e p) params s)) = href e)
       \<and> shown (handleContextMenu getText sel (Element e p) params s) = Some DefaultMenuPopup
       \<and> map (\<lambda>item. activate item (state (handleContextMenu getText sel (Element e p) params s)))
            (defaultMenu getText)
           = [Some (ClipboardWriteText
                     (copyContext (state (handleContextMenu getText sel (Element e p) params s))))]"
  using assms
  by (auto simp: handleContextMenu_def Let_def replace_mailto_def defaultMenu_def activate_def
      no_options_def)

theorem anchor_copyContext_strips_mailto_witness:
  "copyContext (state (handleContextMenu key_text None
      (Element (plain_element\<lparr>nodeName := ''A'', href := ''mailto:a@b.com''\<rparr>) (Some Document))
      no_params initial_state)) = ''a@b.com''
   \<and> copyContext (state (handleContextMenu key_text None
      (Element (plain_element\<lparr>nodeName := ''A'', href := ''https://wire.com/''\<rparr>) (Some Document))
      no_params initial_state)) = ''https://wire.com/''"
  using anchor_copyContext_strips_mailto
      [where e = "plain_element\<lparr>nodeName := ''A'', href := ''mailto:a@b.com''\<rparr>"
         and getText = key_text and sel = None and p = "Some Document" and params = no_params
         and s = initial_state]
    anchor_copyContext_strips_mailto
      [where e = "plain_element\<lparr>nodeName := ''A'', href := ''https://wire.com/''\<rparr>"
         and getText = key_text and sel = None and p = "Some Document" and params = no_params
         and s = initial_state]
  by (simp add: plain_element_def)

text \<open>The claim as stated fails for an anchor that is also an image element: the image
  case, tested first, takes it, the image menu pops up, and \<open>copyContext\<close> stays empty.\<close>

theorem anchor_with_image_class:
  "copyContext (state (handleContextMenu key_text None picture_link no_params initial_state)) = []
   \<and> copyContext (state (handleContextMenu key_text None picture_link no_params initial_state))
     \<noteq> ''a@b.com''
   \<and> shown (handleContextMenu key_text None picture_link no_params initial_state)
     = Some ImageMenuPopup"
  by (simp add: handleContextMenu_def Let_def picture_link_def plain_element_def
      initial_state_def)

subsection \<open>The image case\<close>



text \<open>
  C5, evaluated where the code departs from it. A right-click on the picture of the detail
  view, which has no message body above it: \<open>preventDefault\<close> has been called, no menu is
  shown, and the handler has thrown.
\<close>

theorem preventDefault_without_menu:
  "defaultPrevented (handleContextMenu key_text None detail_picture no_params initial_state)
   \<and> shown (handleContextMenu key_text None detail_picture no_params initial_state) = None
   \<and> thrown (handleContextMenu key_text None detail_picture no_params initial_state)
     = Some TypeError"
  by (simp add: handleContextMenu_def Let_def detail_picture_def plain_element_def)

text \<open>What an image click that finds its message body leaves in the image menu's state:
  the source of the picture always, the time stamp of the first \<open>time\<close> element if there
  is one, and otherwise the time stamp that was there before the click.\<close>

lemma image_click_state:
  assumes "nodeName e \<noteq> ''TEXTAREA''" and "nodeName e \<noteq> ''INPUT''"
    and "''image-element'' \<in> set (classList e) \<or> ''detail-view-image'' \<in> set (classList e)"
    and "closest ''message-body'' (Element e p) = Some parentElement"
  shows "imageMenu_image (state (handleContextMenu getText sel (Element e p) params s)) = src e
       \<and> imageMenu_timestamp (state (handleContextMenu getText sel (Element e p) params s))
           = (case timeElements parentElement of
                [] \<Rightarrow> imageMenu_timestamp s
              | imageTimestamp # _ \<Rightarrow> imageTimestamp)"
  using assms
  by (cases "timeElements parentElement")
     (simp_all add: handleContextMenu_def Let_def del: closest.simps)

text \<open>
  C3, evaluated where the code departs from it. A right-click on a picture whose message
  body has a \<open>time\<close> element, then one on a picture whose message body has none: the image
  menu pops up for the second picture with the time stamp of the first, and "save picture"
  is called with it.
\<close>

theorem imageMenu_timestamp_stale:
  "shown (handleContextMenu key_text None second_picture no_params
            (state (handleContextMenu key_text None first_picture no_params initial_state)))
     = Some ImageMenuPopup
   \<and> imageMenu_image (state (handleContextMenu key_text None second_picture no_params
            (state (handleContextMenu key_text None first_picture no_params initial_state))))
     = Some ''https://x/b.png''
   \<and> imageMenu_timestamp (state (handleContextMenu key_text None second_picture no_params
            (state (handleContextMenu key_text None first_picture no_params initial_state))))
     = Some ''1565173862''
   \<and> map (\<lambda>item. activate item (state (handleContextMenu key_text None second_picture no_params
            (state (handleContextMenu key_text None first_picture no_params initial_state)))))
        (imageMenu key_text)
     = [Some (SavePictureCall ''https://x/b.png'' (Some ''1565173862''))]"
  by (simp add: handleContextMenu_def Let_def first_picture_def second_picture_def
      plain_element_def initial_state_def imageMenu_def activate_def no_options_def)

section \<open>Properties of the macOS packager\<close>

subsection \<open>Configuration defaults\<close>

text \<open>
  C8. With none of MACOS_BUNDLE_ID, MACOS_CERTIFICATE_NAME_APPLICATION,
  MACOS_CERTIFICATE_NAME_INSTALLER, MACOS_NOTARIZE_APPLE_ID and
  MACOS_NOTARIZE_APPLE_PASSWORD set in the environment, and a configuration loader that
  returns, \<open>buildMacOSConfig\<close> returns a \<open>macOSConfig\<close> equal to the defaults: the default
  bundle id and category, both certificate names and both notarization credentials null.
\<close>

theorem buildMacOSConfig_defaults:
  assumes "env ''MACOS_BUNDLE_ID'' = None"
    and "env ''MACOS_CERTIFICATE_NAME_APPLICATION'' = None"
    and "env ''MACOS_CERTIFICATE_NAME_INSTALLER'' = None"
    and "env ''MACOS_NOTARIZE_APPLE_ID'' = None"
    and "env ''MACOS_NOTARIZE_APPLE_PASSWORD'' = None"
    and "getCommonConfig h (path_resolve h envFilePath) (path_resolve h wireJsonPath) disk
           = Inr (defaultConfig, commonConfig)"
  shows "map_sum id fst (buildMacOSConfig h env disk wireJsonPath envFilePath signManually)
           = Inr \<lparr>bundleId = ''com.wearezeta.zclient.mac'',
                  category = ''public.app-category.social-networking'',
                  certNameApplication = None,
                  certNameInstaller = None,
                  notarizeAppleId = None,
                  notarizeApplePassword = None\<rparr>"
  using assms
  by (simp add: buildMacOSConfig_def Let_def or_string_def or_null_def truthy_def
      macOsDefaultConfig_def)

theorem buildMacOSConfig_defaults_witness:
  "buildMacOSConfig sample_host Map.empty (files formatted_world) ''wire.json'' ''.env'' None
     = Inr (\<lparr>bundleId = ''com.wearezeta.zclient.mac'',
              category = ''public.app-category.social-networking'',
              certNameApplication = None,
              certNameInstaller = None,
              notarizeAppleId = None,
              notarizeApplePassword = None\<rparr>, sample_packagerConfig)"
  using buildMacOSConfig_defaults
    [where env = Map.empty and h = sample_host and envFilePath = "''.env''"
       and wireJsonPath = "''wire.json''" and disk = "files formatted_world"
       and defaultConfig = sample_defaultConfig and commonConfig = sample_commonConfig
       and signManually = None]
  by (simp add: buildMacOSConfig_def Let_def or_string_def or_null_def truthy_def
      macOsDefaultConfig_def sample_host_def sample_packagerConfig_def sample_commonConfig_def
      sample_defaultConfig_def)

subsection \<open>Manual signing\<close>

lemma execSync_each_succeeds:
  assumes "\<forall>command disk. fst (run_shell h command disk) = None"
  shows "fst (execSync_each h commands w) = None
       \<and> shell (snd (execSync_each h commands w)) = shell w @ commands"
proof (induction commands arbitrary: w)
  case Nil
  show ?case by simp
next
  case (Cons c cs)
  obtain r disk where run: "run_shell h c (files w) = (r, disk)"
    by (cases "run_shell h c (files w)")
  with assms have "r = None"
    by (metis fst_conv)
  with run Cons [of "\<lparr>files = disk, shell = shell w @ [c]\<rparr>"] show ?case
    by (simp add: execSync_def)
qed

text \<open>Whatever the commands do, those handed to the shell are an initial part of the list:
  a command that fails ends the sequence.\<close>

lemma execSync_each_prefix:
  "\<exists>k\<le>length commands. shell (snd (execSync_each h commands w)) = shell w @ take k commands"
proof (induction commands arbitrary: w)
  case Nil
  show ?case by simp
next
  case (Cons c cs)
  obtain r disk where run: "run_shell h c (files w) = (r, disk)"
    by (cases "run_shell h c (files w)")
  show ?case
  proof (cases r)
    case None
    from Cons [of "\<lparr>files = disk, shell = shell w @ [c]\<rparr>"]
    obtain k where "k \<le> length cs"
      "shell (snd (execSync_each h cs \<lparr>files = disk, shell = shell w @ [c]\<rparr>))
         = (shell w @ [c]) @ take k cs"
      by auto
    with run None have "Suc k \<le> length (c # cs) \<and>
      shell (snd (execSync_each h (c # cs) w)) = shell w @ take (Suc k) (c # cs)"
      by (simp add: execSync_def)
    then show ?thesis by blast
  next
    case (Some e)
    with run have "shell (snd (execSync_each h (c # cs) w)) = shell w @ take 1 (c # cs)"
      by (simp add: execSync_def)
    then show ?thesis by (intro exI [of _ 1]) simp
  qed
qed

text \<open>
  C4, as amended. Given a non-empty application certificate name, and commands that all
  exit with zero, \<open>manualMacOSSign\<close> hands to the shell, in this order, one \<open>codesign\<close> call
  with the inheriting (child) entitlements for each entry of the fixed path list; then,
  only if an installer certificate name is set as well, a \<open>codesign\<close> of the top-level app
  executable, a \<open>codesign\<close> of the app bundle with the parent entitlements, and one
  \<open>productbuild\<close> call with the installer identity. Without an installer certificate name
  the calls for the path list are all there is.
\<close>

theorem manualMacOSSign_command_order:
  assumes "certNameApplication macOSConfig = Some application" and "application \<noteq> []"
    and "\<forall>command disk. fst (run_shell h command disk) = None"
  shows "(\<forall>installer. certNameInstaller macOSConfig = Some installer \<and> installer \<noteq> [] \<longrightarrow>
            shell (snd (manualMacOSSign h appFile pkgFile commonConfig macOSConfig w))
              = shell w
                @ map (\<lambda>fileName. codesign application inheritEntitlements
                                     (appFile @ ''/Contents/'' @ fileName))
                    (filesToSign commonConfig)
                @ [codesign application inheritEntitlements
                     (appFile @ ''/Contents/MacOS/'' @ name commonConfig),
                   codesign application mainEntitlements appFile,
                   productbuild appFile installer pkgFile])
       \<and> (\<not> truthy (certNameInstaller macOSConfig) \<longrightarrow>
            shell (snd (manualMacOSSign h appFile pkgFile commonConfig macOSConfig w))
              = shell w
                @ map (\<lambda>fileName. codesign application inheritEntitlements
                                     (appFile @ ''/Contents/'' @ fileName))
                    (filesToSign commonConfig))
       \<and> fst (manualMacOSSign h appFile pkgFile commonConfig macOSConfig w) = None"
proof -
  let ?first = "map (\<lambda>fileName. codesign application inheritEntitlements
                                   (appFile @ ''/Contents/'' @ fileName))
                  (filesToSign commonConfig)"
  obtain r w1 where first: "execSync_each h ?first w = (r, w1)"
    by (cases "execSync_each h ?first w")
  with execSync_each_succeeds [OF assms(3), of ?first w]
  have r: "r = None" and w1: "shell w1 = shell w @ ?first"
    by simp_all
  show ?thesis
  proof (cases "truthy (certNameInstaller macOSConfig)")
    case True
    then obtain installer
      where inst: "certNameInstaller macOSConfig = Some installer" "installer \<noteq> []"
      by (auto simp: truthy_def split: option.splits)
    let ?rest = "[codesign application inheritEntitlements
                    (appFile @ ''/Contents/MacOS/'' @ name commonConfig),
                  codesign application mainEntitlements appFile,
                  productbuild appFile installer pkgFile]"
    from execSync_each_succeeds [OF assms(3), of ?rest w1] w1
    have "fst (execSync_each h ?rest w1) = None"
      "shell (snd (execSync_each h ?rest w1)) = shell w @ ?first @ ?rest"
      by simp_all
    with assms(1,2) first r inst True show ?thesis
      by (simp add: manualMacOSSign_def Let_def)
  next
    case False
    with assms(1,2) first r w1 show ?thesis
      by (auto simp: manualMacOSSign_def truthy_def split: option.splits)
  qed
qed

theorem manualMacOSSign_command_order_witness:
  "shell (snd (manualMacOSSign sample_host ''Wire.app'' ''Wire.pkg'' sample_commonConfig
                 (macOsDefaultConfig\<lparr>certNameApplication := Some ''App'',
                                      certNameInstaller := Some ''Installer''\<rparr>)
                 formatted_world))
     = map (\<lambda>fileName. codesign ''App'' inheritEntitlements (''Wire.app/Contents/'' @ fileName))
         (filesToSign sample_commonConfig)
       @ [codesign ''App'' inheritEntitlements ''Wire.app/Contents/MacOS/Wire'',
          codesign ''App'' mainEntitlements ''Wire.app'',
          productbuild ''Wire.app'' ''Installer'' ''Wire.pkg'']
   \<and> length (filesToSign sample_commonConfig) = 17"
  using manualMacOSSign_command_order
    [where macOSConfig = "macOsDefaultConfig\<lparr>certNameApplication := Some ''App'',
                                             certNameInstaller := Some ''Installer''\<rparr>"
       and application = "''App''" and h = sample_host and appFile = "''Wire.app''"
       and pkgFile = "''Wire.pkg''" and commonConfig = sample_commonConfig
       and w = formatted_world]
  by (simp add: sample_host_def formatted_world_def sample_commonConfig_def
      sample_defaultConfig_def filesToSign_def)

text \<open>The claim as stated fails: with an application certificate name and no installer
  certificate name, seventeen \<open>codesign\<close> calls are all that is issued; the last of them
  signs the login helper, and there is no \<open>productbuild\<close> call.\<close>

theorem manualMacOSSign_without_installer:
  "shell (snd (manualMacOSSign sample_host ''Wire.app'' ''Wire.pkg'' sample_commonConfig
                 (macOsDefaultConfig\<lparr>certNameApplication := Some ''App''\<rparr>) formatted_world))
     = map (\<lambda>fileName. codesign ''App'' inheritEntitlements (''Wire.app/Contents/'' @ fileName))
         (filesToSign sample_commonConfig)
   \<and> length (shell (snd (manualMacOSSign sample_host ''Wire.app'' ''Wire.pkg''
                 sample_commonConfig (macOsDefaultConfig\<lparr>certNameApplication := Some ''App''\<rparr>)
                 formatted_world))) = 17
   \<and> last (shell (snd (manualMacOSSign sample_host ''Wire.app'' ''Wire.pkg''
                 sample_commonConfig (macOsDefaultConfig\<lparr>certNameApplication := Some ''App''\<rparr>)
                 formatted_world)))
     = codesign ''App'' inheritEntitlements
         ''Wire.app/Contents/Library/LoginItems/Wire Login Helper.app/''"
  by (simp add: manualMacOSSign_def macOsDefaultConfig_def execSync_def sample_host_def
      formatted_world_def filesToSign_def sample_commonConfig_def sample_defaultConfig_def)

text \<open>
  C9. When the application certificate name is null, \<open>manualMacOSSign\<close> returns without
  an error and leaves the world as it was, whatever the installer certificate name is: no
  command is handed to the shell and no file is written.
\<close>

theorem manualMacOSSign_no_application_certificate:
  assumes "certNameApplication macOSConfig = None"
  shows "manualMacOSSign h appFile pkgFile commonConfig macOSConfig w = (None, w)"
  using assms by (simp add: manualMacOSSign_def)

theorem manualMacOSSign_no_application_certificate_witness:
  "manualMacOSSign sample_host ''Wire.app'' ''Wire.pkg'' sample_commonConfig
     (macOsDefaultConfig\<lparr>certNameInstaller := Some ''Installer''\<rparr>) formatted_world
     = (None, formatted_world)"
  using manualMacOSSign_no_application_certificate
    [where macOSConfig = "macOsDefaultConfig\<lparr>certNameInstaller := Some ''Installer''\<rparr>"
       and h = sample_host and appFile = "''Wire.app''" and pkgFile = "''Wire.pkg''"
       and commonConfig = sample_commonConfig and w = formatted_world]
  by (simp add: macOsDefaultConfig_def)

subsection \<open>Manifests around the packaging step\<close>

text \<open>As long as loading the configuration or reading the package manifest throws, nothing
  is written.\<close>

lemma buildMacOSWrapper_config_error:
  "getCommonConfig h (path_resolve h envFilePath) (path_resolve h wireJsonPath) (files w) = Inl e \<Longrightarrow>
   buildMacOSWrapper h packagerConfig macOSConfig packageJsonPath wireJsonPath envFilePath
     signManually w = (Some e, w)"
  by (simp add: buildMacOSWrapper_def)

lemma buildMacOSWrapper_read_error:
  "getCommonConfig h (path_resolve h envFilePath) (path_resolve h wireJsonPath) (files w)
     = Inr (defaultConfig, commonConfig) \<Longrightarrow>
   readJson h (path_resolve h packageJsonPath) w = Inl e \<Longrightarrow>
   buildMacOSWrapper h packagerConfig macOSConfig packageJsonPath wireJsonPath envFilePath
     signManually w = (Some e, w)"
  by (simp add: buildMacOSWrapper_def)

text \<open>The \<open>finally\<close> block, taken alone: from any world the packaging step may leave, and
  with any result of it, either a restoring write fails and its error is the outcome, or
  both manifests hold the restored texts and the outcome is that of the packaging step.\<close>

lemma restore_after_packaging:
  assumes "file1 \<noteq> file2"
  shows "(case writeJson h file1 v1 w3 of
            Inl e \<Rightarrow> (Some e, w3)
          | Inr w4 \<Rightarrow>
              (case writeJson h file2 v2 w4 of Inl e \<Rightarrow> (Some e, w4) | Inr w5 \<Rightarrow> (r, w5)))
         = (if \<not> writable h (files w3) file1 then (Some (WriteError file1), w3)
            else if \<not> writable h ((files w3)(file1 \<mapsto> JSON_text h v1)) file2 then
              (Some (WriteError file2), w3\<lparr>files := (files w3)(file1 \<mapsto> JSON_text h v1)\<rparr>)
            else
              (r, w3\<lparr>files := (files w3)(file1 \<mapsto> JSON_text h v1, file2 \<mapsto> JSON_text h v2)\<rparr>))"
  by (simp add: writeJson_def)

text \<open>
  C1, as amended. Take an execution of \<open>buildMacOSWrapper\<close> in which the configuration is
  loaded and the package manifest is read and parsed (otherwise nothing is written), with
  two different manifest paths. Whatever the packaging and signing step does, and whether it
  succeeds or throws, afterwards either the call has failed with the error of a write to
  one of the two manifests, or the package manifest holds the text \<open>writeJson\<close> writes for
  the value that was parsed from it and the wire descriptor holds the text \<open>writeJson\<close>
  writes for \<open>defaultConfig\<close>. On a host where writes to the two manifests never fail,
  the manifests always hold these texts afterwards; then a manifest whose content before
  the call already was this text is byte-identical to it after the call.
\<close>

theorem buildMacOSWrapper_restores_manifests:
  assumes "getCommonConfig h (path_resolve h envFilePath) (path_resolve h wireJsonPath) (files w)
             = Inr (defaultConfig, commonConfig)"
    and "files w (path_resolve h packageJsonPath) = Some packageText"
    and "JSON_parse h packageText = Some originalPackageJson"
    and "path_resolve h packageJsonPath \<noteq> path_resolve h wireJsonPath"
  shows "((files (snd (buildMacOSWrapper h packagerConfig macOSConfig packageJsonPath
                         wireJsonPath envFilePath signManually w)) (path_resolve h packageJsonPath)
             = Some (JSON_text h originalPackageJson)
           \<and> files (snd (buildMacOSWrapper h packagerConfig macOSConfig packageJsonPath
                         wireJsonPath envFilePath signManually w)) (path_resolve h wireJsonPath)
             = Some (JSON_text h (config_json h defaultConfig)))
          \<or> fst (buildMacOSWrapper h packagerConfig macOSConfig packageJsonPath wireJsonPath
                   envFilePath signManually w)
             = Some (WriteError (path_resolve h packageJsonPath))
          \<or> fst (buildMacOSWrapper h packagerConfig macOSConfig packageJsonPath wireJsonPath
                   envFilePath signManually w)
             = Some (WriteError (path_resolve h wireJsonPath)))
       \<and> ((\<forall>disk. writable h disk (path_resolve h packageJsonPath)
                  \<and> writable h disk (path_resolve h wireJsonPath)) \<longrightarrow>
            files (snd (buildMacOSWrapper h packagerConfig macOSConfig packageJsonPath
                          wireJsonPath envFilePath signManually w)) (path_resolve h packageJsonPath)
              = Some (JSON_text h originalPackageJson)
          \<and> files (snd (buildMacOSWrapper h packagerConfig macOSConfig packageJsonPath
                          wireJsonPath envFilePath signManually w)) (path_resolve h wireJsonPath)
              = Some (JSON_text h (config_json h defaultConfig))
          \<and> (JSON_text h originalPackageJson = packageText \<longrightarrow>
                files (snd (buildMacOSWrapper h packagerConfig macOSConfig packageJsonPath
                              wireJsonPath envFilePath signManually w))
                  (path_resolve h packageJsonPath)
                  = files w (path_resolve h packageJsonPath))
          \<and> (files w (path_resolve h wireJsonPath)
                  = Some (JSON_text h (config_json h defaultConfig)) \<longrightarrow>
                files (snd (buildMacOSWrapper h packagerConfig macOSConfig packageJsonPath
                              wireJsonPath envFilePath signManually w))
                  (path_resolve h wireJsonPath)
                  = files w (path_resolve h wireJsonPath)))"
proof -
  let ?pkg = "path_resolve h packageJsonPath" and ?wire = "path_resolve h wireJsonPath"
  let ?result = "buildMacOSWrapper h packagerConfig macOSConfig packageJsonPath wireJsonPath
                   envFilePath signManually w"
  let ?restored = "files (snd ?result) ?pkg = Some (JSON_text h originalPackageJson)
                 \<and> files (snd ?result) ?wire = Some (JSON_text h (config_json h defaultConfig))"
  from assms(2,3) have read: "readJson h ?pkg w = Inr originalPackageJson"
    by (simp add: readJson_def)
  have either: "?restored \<or> fst ?result = Some (WriteError ?pkg)
                  \<or> fst ?result = Some (WriteError ?wire)"
  proof (cases "writeJson h ?pkg (with_productName_version originalPackageJson commonConfig) w")
    case (Inl e)
    then have "e = WriteError ?pkg"
      by (simp add: writeJson_def split: if_splits)
    with Inl assms(1) read show ?thesis
      by (simp add: buildMacOSWrapper_def)
  next
    case w1: (Inr w1)
    show ?thesis
    proof (cases "writeJson h ?wire (config_json h commonConfig) w1")
      case (Inl e)
      then have "e = WriteError ?wire"
        by (simp add: writeJson_def split: if_splits)
      with Inl w1 assms(1) read show ?thesis
        by (simp add: buildMacOSWrapper_def)
    next
      case w2: (Inr w2)
      obtain r w3
        where body: "package_and_sign h packagerConfig macOSConfig commonConfig signManually w2
                       = (r, w3)"
        by (cases "package_and_sign h packagerConfig macOSConfig commonConfig signManually w2")
      from assms(1) read w1 w2 body
      have "?result =
              (case writeJson h ?pkg originalPackageJson w3 of
                 Inl e \<Rightarrow> (Some e, w3)
               | Inr w4 \<Rightarrow>
                   (case writeJson h ?wire (config_json h defaultConfig) w4 of
                      Inl e \<Rightarrow> (Some e, w4)
                    | Inr w5 \<Rightarrow> (r, w5)))"
        by (simp add: buildMacOSWrapper_def)
      with assms(4) show ?thesis
        by (simp add: restore_after_packaging)
    qed
  qed
  have always: "?restored"
    if "\<forall>disk. writable h disk ?pkg \<and> writable h disk ?wire"
    using that assms(1,4) read
    by (simp add: buildMacOSWrapper_def Let_def writeJson_def split: prod.split)
  from either always assms(2) show ?thesis
    by auto
qed

theorem buildMacOSWrapper_restores_manifests_witness:
  "fst (buildMacOSWrapper failing_host sample_packagerConfig sample_macOSConfig
          ''package.json'' ''wire.json'' ''.env'' None formatted_world)
     = Some (ToolFailure ''electron-packager'')
   \<and> files (snd (buildMacOSWrapper failing_host sample_packagerConfig sample_macOSConfig
          ''package.json'' ''wire.json'' ''.env'' None formatted_world)) ''/repo/package.json''
     = files formatted_world ''/repo/package.json''
   \<and> files (snd (buildMacOSWrapper failing_host sample_packagerConfig sample_macOSConfig
          ''package.json'' ''wire.json'' ''.env'' None formatted_world)) ''/repo/wire.json''
     = files formatted_world ''/repo/wire.json''
   \<and> fst (buildMacOSWrapper sample_host sample_packagerConfig sample_macOSConfig
          ''package.json'' ''wire.json'' ''.env'' (Some False) formatted_world)
     = None
   \<and> files (snd (buildMacOSWrapper sample_host sample_packagerConfig sample_macOSConfig
          ''package.json'' ''wire.json'' ''.env'' (Some False) formatted_world)) ''/repo/package.json''
     = files formatted_world ''/repo/package.json''
   \<and> files (snd (buildMacOSWrapper sample_host sample_packagerConfig sample_macOSConfig
          ''package.json'' ''wire.json'' ''.env'' (Some False) formatted_world)) ''/repo/wire.json''
     = files formatted_world ''/repo/wire.json''"
proof -
  have failing: "fst (buildMacOSWrapper failing_host sample_packagerConfig sample_macOSConfig
          ''package.json'' ''wire.json'' ''.env'' None formatted_world)
     = Some (ToolFailure ''electron-packager'')"
    by (simp add: buildMacOSWrapper_def Let_def readJson_def writeJson_def package_and_sign_def
        failing_host_def sample_host_def sample_parse_def formatted_world_def)
  have succeeding: "fst (buildMacOSWrapper sample_host sample_packagerConfig sample_macOSConfig
          ''package.json'' ''wire.json'' ''.env'' (Some False) formatted_world)
     = None"
    by (simp add: buildMacOSWrapper_def Let_def readJson_def writeJson_def package_and_sign_def
        first_buildDir_def sample_macOSConfig_def macOsDefaultConfig_def
        sample_host_def sample_parse_def formatted_world_def)
  from failing succeeding
    buildMacOSWrapper_restores_manifests
      [where h = failing_host and envFilePath = "''.env''" and wireJsonPath = "''wire.json''"
         and packageJsonPath = "''package.json''" and w = formatted_world
         and defaultConfig = sample_defaultConfig and commonConfig = sample_commonConfig
         and packageText = "writeJson_text sample_package"
         and originalPackageJson = sample_package and packagerConfig = sample_packagerConfig
         and macOSConfig = sample_macOSConfig and signManually = None]
    buildMacOSWrapper_restores_manifests
      [where h = sample_host and envFilePath = "''.env''" and wireJsonPath = "''wire.json''"
         and packageJsonPath = "''package.json''" and w = formatted_world
         and defaultConfig = sample_defaultConfig and commonConfig = sample_commonConfig
         and packageText = "writeJson_text sample_package"
         and originalPackageJson = sample_package and packagerConfig = sample_packagerConfig
         and macOSConfig = sample_macOSConfig and signManually = "Some False"]
  show ?thesis
    by (simp add: failing_host_def sample_host_def sample_parse_def formatted_world_def)
qed

text \<open>
  The claim as stated fails, in three executions. A package manifest that holds \<open>{}\<close> on
  one line, without a final newline, holds \<open>{}\<close> and a newline after the call. When the
  packaged bundle fills the disk, the first restoring write fails: the call fails with its
  error, and both manifests keep the texts written for the build. When the wire descriptor
  cannot be written, the second write before \<open>try\<close> fails, and the package manifest keeps
  the text written for the build.
\<close>

theorem buildMacOSWrapper_not_byte_identical:
  "files (snd (buildMacOSWrapper sample_host sample_packagerConfig sample_macOSConfig
                 ''package.json'' ''wire.json'' ''.env'' None one_line_world))
     ''/repo/package.json'' = Some [CHR ''{'', CHR ''}'', CHR 0x0A]
   \<and> files (snd (buildMacOSWrapper sample_host sample_packagerConfig sample_macOSConfig
                 ''package.json'' ''wire.json'' ''.env'' None one_line_world))
     ''/repo/package.json'' \<noteq> files one_line_world ''/repo/package.json''
   \<and> fst (buildMacOSWrapper full_disk_host sample_packagerConfig sample_macOSConfig
            ''package.json'' ''wire.json'' ''.env'' None formatted_world)
     = Some (WriteError ''/repo/package.json'')
   \<and> files (snd (buildMacOSWrapper full_disk_host sample_packagerConfig sample_macOSConfig
                 ''package.json'' ''wire.json'' ''.env'' None formatted_world))
     ''/repo/package.json''
     = Some (writeJson_text (with_productName_version sample_package sample_commonConfig))
   \<and> files (snd (buildMacOSWrapper full_disk_host sample_packagerConfig sample_macOSConfig
                 ''package.json'' ''wire.json'' ''.env'' None formatted_world))
     ''/repo/wire.json''
     = Some (writeJson_text (sample_config_json sample_commonConfig))
   \<and> files (snd (buildMacOSWrapper full_disk_host sample_packagerConfig sample_macOSConfig
                 ''package.json'' ''wire.json'' ''.env'' None formatted_world))
     ''/repo/wire.json'' \<noteq> files formatted_world ''/repo/wire.json''
   \<and> fst (buildMacOSWrapper read_only_wire_host sample_packagerConfig sample_macOSConfig
            ''package.json'' ''wire.json'' ''.env'' None formatted_world)
     = Some (WriteError ''/repo/wire.json'')
   \<and> files (snd (buildMacOSWrapper read_only_wire_host sample_packagerConfig sample_macOSConfig
                 ''package.json'' ''wire.json'' ''.env'' None formatted_world))
     ''/repo/package.json''
     = Some (writeJson_text (with_productName_version sample_package sample_commonConfig))
   \<and> files (snd (buildMacOSWrapper read_only_wire_host sample_packagerConfig sample_macOSConfig
                 ''package.json'' ''wire.json'' ''.env'' None formatted_world))
     ''/repo/package.json'' \<noteq> files formatted_world ''/repo/package.json''"
proof -
  have texts:
    "writeJson_text (sample_config_json sample_commonConfig)
       \<noteq> writeJson_text (sample_config_json sample_defaultConfig)"
    "writeJson_text (with_productName_version sample_package sample_commonConfig)
       \<noteq> writeJson_text sample_package"
    by (simp_all add: writeJson_text_def sample_config_json_def sample_commonConfig_def
        sample_defaultConfig_def sample_package_def with_productName_version_def
        own_properties_def string_literal_def escape_char_def pad_def)
  have one_line:
    "files (snd (buildMacOSWrapper sample_host sample_packagerConfig sample_macOSConfig
                 ''package.json'' ''wire.json'' ''.env'' None one_line_world))
       ''/repo/package.json'' = Some [CHR ''{'', CHR ''}'', CHR 0x0A]"
    by (simp add: buildMacOSWrapper_def Let_def readJson_def writeJson_def sample_host_def
        sample_parse_def writeJson_text_def one_line_world_def split: prod.split)
  have full_disk:
    "buildMacOSWrapper full_disk_host sample_packagerConfig sample_macOSConfig
       ''package.json'' ''wire.json'' ''.env'' None formatted_world
     = (Some (WriteError ''/repo/package.json''),
        \<lparr>files = (files formatted_world)
           (''/repo/package.json'' \<mapsto>
              writeJson_text (with_productName_version sample_package sample_commonConfig),
            ''/repo/wire.json'' \<mapsto> writeJson_text (sample_config_json sample_commonConfig),
            ''/repo/wrap/build/Wire-mas-x64/Wire.app'' \<mapsto> ''bundle''),
         shell = []\<rparr>)"
    by (simp add: buildMacOSWrapper_def Let_def readJson_def writeJson_def package_and_sign_def
        first_buildDir_def sample_macOSConfig_def macOsDefaultConfig_def full_disk_host_def
        sample_host_def sample_parse_def formatted_world_def)
  have read_only:
    "buildMacOSWrapper read_only_wire_host sample_packagerConfig sample_macOSConfig
       ''package.json'' ''wire.json'' ''.env'' None formatted_world
     = (Some (WriteError ''/repo/wire.json''),
        \<lparr>files = (files formatted_world)
           (''/repo/package.json'' \<mapsto>
              writeJson_text (with_productName_version sample_package sample_commonConfig)),
         shell = []\<rparr>)"
    by (simp add: buildMacOSWrapper_def Let_def readJson_def writeJson_def
        read_only_wire_host_def sample_host_def sample_parse_def formatted_world_def)
  from texts one_line show ?thesis
    unfolding full_disk read_only
    by (simp add: one_line_world_def formatted_world_def)
qed

end
